theory Spec2Isabelle
  imports Complex_Main
begin

section \<open>Visitor tracking: the data model of \<^verbatim>\<open>tracking/models.py\<close>\<close>

text \<open>
  Timestamps are counted in microseconds (the resolution of a Python \<^verbatim>\<open>datetime\<close>);
  the difference of two timestamps is a \<^verbatim>\<open>timedelta\<close>, again in microseconds.
\<close>

type_synonym datetime = int
type_synonym timedelta = int

text \<open>
  \<^verbatim>\<open>Visitor\<close> declares no primary key of its own, so the key \<^verbatim>\<open>pk\<close> of a row is
  the automatic integer column \<^verbatim>\<open>id\<close>. The middleware fills it in two ways:
  \<^verbatim>\<open>Visitor.objects.create(...)\<close> lets the store assign the next automatic id, and
  \<^verbatim>\<open>Visitor(pk=session_key, ...)\<close> gives the session key, a string, which the integer
  column converts with \<^verbatim>\<open>int()\<close>; a string that is no number raises
  \<^verbatim>\<open>ValueError\<close>. The table is the list of its rows, in insertion order. The next
  automatic id lies above every id that the table holds (as the counters of SQLite and
  MySQL do); the range of the column is not modelled.
\<close>

record visitor =
  pk :: int
  session_key :: string
  cookie_key :: string
  user_id :: "int option"
  ip_address :: string
  user_agent :: "string option"
  start_time :: "datetime option"
  expiry_age :: "int option"
  expiry_time :: "datetime option"
  time_on_site :: "int option"
  end_time :: "datetime option"

record pageview =
  pv_visitor :: int
  url :: string
  referer :: "string option"
  query_string :: "string option"
  pv_method :: string
  view_time :: datetime

record store =
  visitors :: "visitor list"
  pageviews :: "pageview list"
  next_id :: nat

datatype error = ValueError | AttributeError | IntegrityError

subsection \<open>The collaborators: users, sessions, requests, responses, settings\<close>

text \<open>
  \<^verbatim>\<open>request.user\<close> is either Django's \<^verbatim>\<open>AnonymousUser\<close> or a stored user, given by
  its primary key.
\<close>

datatype user = AnonymousUser | User int

fun is_anonymous :: "user \<Rightarrow> bool" where
  "is_anonymous AnonymousUser = True"
| "is_anonymous (User i) = False"

fun is_authenticated :: "user \<Rightarrow> bool" where
  "is_authenticated AnonymousUser = False"
| "is_authenticated (User i) = True"

text \<open>
  A session: its key (absent until the session is saved), its expiry policy, and the key
  that \<^verbatim>\<open>save()\<close> mints when the session has none.
\<close>

record session =
  s_session_key :: "string option"
  s_expiry_age :: int
  s_expiry_date :: datetime
  s_save_key :: string

record request =
  r_session :: "session option"
  r_user :: "user option"
  r_is_ajax :: bool
  r_path_info :: string
  r_path :: string
  r_method :: string
  r_META :: "string \<Rightarrow> string option"
  r_COOKIES :: "string \<Rightarrow> string option"
  r_ip :: string

record cookie =
  c_value :: string
  c_max_age :: int
  c_expires :: datetime
  c_domain :: "string option"
  c_secure :: "bool option"

record response =
  status_code :: int
  cookies :: "string \<Rightarrow> cookie option"

text \<open>
  The constants of \<^verbatim>\<open>tracking.settings\<close> and of Django's settings that the middleware
  reads. A compiled pattern of \<^verbatim>\<open>track_ignore_urls\<close> is represented by its
  \<^verbatim>\<open>match\<close> predicate on paths.
\<close>

record config =
  TRACK_AJAX_REQUESTS :: bool
  TRACK_ANONYMOUS_USERS :: bool
  TRACK_IGNORE_STATUS_CODES :: "int list"
  track_ignore_urls :: "(string \<Rightarrow> bool) list"
  TRACK_PAGEVIEWS :: bool
  TRACK_QUERY_STRING :: bool
  TRACK_REFERER :: bool
  TRACK_ANONYMOUS_USERS_WITH_COOKIES :: bool
  SESSION_COOKIE_DOMAIN :: "string option"
  SESSION_COOKIE_SECURE :: bool

text \<open>
  The two readings of the clock that one call of the tracking middleware takes:
  \<^verbatim>\<open>now = timezone.now()\<close> in \<^verbatim>\<open>process_response\<close>, and the later reading that the
  field default \<^verbatim>\<open>start_time = timezone.now\<close> takes when a \<^verbatim>\<open>Visitor\<close> is constructed.
\<close>

record clock =
  process_now :: datetime
  default_now :: datetime

subsection \<open>Python's truth values and conversions\<close>

definition truthy_str :: "string option \<Rightarrow> bool" where
  "truthy_str x = (case x of None \<Rightarrow> False | Some s \<Rightarrow> s \<noteq> [])"

definition truthy_int :: "int option \<Rightarrow> bool" where
  "truthy_int x = (case x of None \<Rightarrow> False | Some i \<Rightarrow> i \<noteq> 0)"

text \<open>\<^verbatim>\<open>int(x)\<close> on a number truncates towards zero.\<close>

definition py_int :: "rat \<Rightarrow> int" where
  "py_int x = (if 0 \<le> x then \<lfloor>x\<rfloor> else \<lceil>x\<rceil>)"

text \<open>
  Modelled from the spec: \<^verbatim>\<open>tracking.utils.total_seconds\<close> is not among the sources.
  The spec has time-on-site as the elapsed duration \<^verbatim>\<open>now - start_time\<close> in seconds,
  made an integer afterwards; so the duration in seconds, fraction included.
\<close>

definition total_seconds :: "timedelta \<Rightarrow> rat" where
  "total_seconds delta = of_int delta / 1000000"

text \<open>
  Modelled from the spec: \<^verbatim>\<open>tracking.utils.get_ip_address\<close> is not among the sources.
  The spec says only that the address of the request is captured; it is a field of the
  request here.
\<close>

definition get_ip_address :: "request \<Rightarrow> string" where
  "get_ip_address request = r_ip request"

text \<open>
  Django's \<^verbatim>\<open>smart_text(s, encoding='latin-1', errors='ignore')\<close>: every byte is one
  character of latin-1, so the text has the same characters as the header.
\<close>

definition smart_text :: "string \<Rightarrow> string" where
  "smart_text s = s"

definition lstrip_slash :: "string \<Rightarrow> string" where
  "lstrip_slash s = dropWhile (\<lambda>c. c = CHR ''/'') s"

text \<open>
  \<^verbatim>\<open>int(s)\<close> on a string: white space around the number is dropped, a sign may
  come first, and the rest is one or more decimal digits; anything else raises
  \<^verbatim>\<open>ValueError\<close>, which is \<open>None\<close> here.
\<close>

definition is_space :: "char \<Rightarrow> bool" where
  "is_space c = (c \<in> set [CHR 0x20, CHR 0x09, CHR 0x0A, CHR 0x0B, CHR 0x0C, CHR 0x0D])"

definition strip :: "string \<Rightarrow> string" where
  "strip s = rev (dropWhile is_space (rev (dropWhile is_space s)))"

definition digit_of :: "char \<Rightarrow> int option" where
  "digit_of c =
     map_of [(CHR ''0'', 0), (CHR ''1'', 1), (CHR ''2'', 2), (CHR ''3'', 3), (CHR ''4'', 4),
             (CHR ''5'', 5), (CHR ''6'', 6), (CHR ''7'', 7), (CHR ''8'', 8), (CHR ''9'', 9)] c"

fun decimal :: "int \<Rightarrow> string \<Rightarrow> int option" where
  "decimal acc [] = Some acc"
| "decimal acc (c # cs) =
     (case digit_of c of None \<Rightarrow> None | Some d \<Rightarrow> decimal (acc * 10 + d) cs)"

definition py_int_of_str :: "string \<Rightarrow> int option" where
  "py_int_of_str s =
     (case strip s of
        [] \<Rightarrow> None
      | c # rest \<Rightarrow>
          if c = CHR ''-'' then (if rest = [] then None else map_option uminus (decimal 0 rest))
          else if c = CHR ''+'' then (if rest = [] then None else decimal 0 rest)
          else decimal 0 (c # rest))"

subsection \<open>The object manager\<close>

text \<open>The row with a given id, if there is one.\<close>

definition row_with_pk :: "visitor list \<Rightarrow> int \<Rightarrow> visitor option" where
  "row_with_pk rows n = find (\<lambda>r. pk r = n) rows"

text \<open>
  \<^verbatim>\<open>Visitor.objects.get(pk=key)\<close> with the key as the caller gives it, a string or
  \<^verbatim>\<open>None\<close>: \<^verbatim>\<open>ValueError\<close> when the string is no number, else the row with that
  number as id, or \<^verbatim>\<open>DoesNotExist\<close> (\<open>Inr None\<close>); no row has the id
  \<^verbatim>\<open>None\<close>.
\<close>

definition objects_get :: "visitor list \<Rightarrow> string option \<Rightarrow> error + visitor option" where
  "objects_get rows key =
     (case key of
        None \<Rightarrow> Inr None
      | Some k \<Rightarrow>
          (case py_int_of_str k of
             None \<Rightarrow> Inl ValueError
           | Some n \<Rightarrow> Inr (row_with_pk rows n)))"

text \<open>
  The id under which \<^verbatim>\<open>save()\<close> inserts an object that was constructed with
  \<^verbatim>\<open>pk=key\<close>: the key as a number, and the next automatic id when the key is
  \<^verbatim>\<open>None\<close>.
\<close>

definition pk_of_key :: "store \<Rightarrow> string option \<Rightarrow> error + int" where
  "pk_of_key db key =
     (case key of
        None \<Rightarrow> Inr (int (next_id db))
      | Some k \<Rightarrow>
          (case py_int_of_str k of
             None \<Rightarrow> Inl ValueError
           | Some n \<Rightarrow> Inr n))"

text \<open>
  \<^verbatim>\<open>visitor.save()\<close> of an object that has an id: the row stored under that id is
  overwritten, and a new row is inserted when there is none.
\<close>

definition save :: "visitor \<Rightarrow> visitor list \<Rightarrow> visitor list" where
  "save v rows =
     (if list_ex (\<lambda>r. pk r = pk v) rows
      then map (\<lambda>r. if pk r = pk v then v else r) rows
      else rows @ [v])"

text \<open>A new \<^verbatim>\<open>Visitor\<close> object with the defaults of its fields.\<close>

definition Visitor_init :: "int \<Rightarrow> datetime \<Rightarrow> visitor" where
  "Visitor_init k clock_reading =
     \<lparr>pk = k, session_key = [], cookie_key = [], user_id = None, ip_address = [],
      user_agent = None, start_time = Some clock_reading, expiry_age = None,
      expiry_time = None, time_on_site = None, end_time = None\<rparr>"

text \<open>
  \<^verbatim>\<open>Visitor.objects.create(**kwargs)\<close>: the object is inserted under the next automatic
  id. The keyword arguments are given as an update of the new object.
\<close>

definition objects_create :: "(visitor \<Rightarrow> visitor) \<Rightarrow> datetime \<Rightarrow> store \<Rightarrow> visitor \<times> store" where
  "objects_create kwargs clock_reading db =
     (let obj = kwargs (Visitor_init (int (next_id db)) clock_reading)
      in (obj, db\<lparr>visitors := visitors db @ [obj], next_id := Suc (next_id db)\<rparr>))"

text \<open>\<^verbatim>\<open>Visitor.objects.filter(session_key=code).exists()\<close>\<close>

definition filter_session_key_exists :: "store \<Rightarrow> string \<Rightarrow> bool" where
  "filter_session_key_exists db code = list_ex (\<lambda>r. session_key r = code) (visitors db)"

text \<open>
  The test as the specification words it, for comparison: the candidate is among the
  identity keys of the rows, which in cookie mode are the cookie tokens.
\<close>

definition identity_key_exists :: "store \<Rightarrow> string \<Rightarrow> bool" where
  "identity_key_exists db code = list_ex (\<lambda>r. cookie_key r = code) (visitors db)"

section \<open>\<^verbatim>\<open>VisitorTrackingMiddleware\<close>\<close>

text \<open>
  \<^verbatim>\<open>_should_track\<close>. The warning it issues when the request has no session is not part
  of the store and is left out.
\<close>

definition should_track :: "config \<Rightarrow> user option \<Rightarrow> request \<Rightarrow> response \<Rightarrow> bool" where
  "should_track cfg usr request response =
     (if r_session request = None then False
      else if r_is_ajax request \<and> \<not> TRACK_AJAX_REQUESTS cfg then False
      else if status_code response \<in> set (TRACK_IGNORE_STATUS_CODES cfg) then False
      else if usr = None \<and> \<not> TRACK_ANONYMOUS_USERS cfg then False
      else if list_ex (\<lambda>url_match. url_match (lstrip_slash (r_path_info request)))
                (track_ignore_urls cfg) then False
      else True)"

text \<open>
  \<^verbatim>\<open>visitor.user = user\<close>: Django refuses an \<^verbatim>\<open>AnonymousUser\<close> with a
  \<^verbatim>\<open>ValueError\<close>.
\<close>

definition assign_user :: "visitor \<Rightarrow> user \<Rightarrow> error + visitor" where
  "assign_user v usr =
     (case usr of AnonymousUser \<Rightarrow> Inl ValueError
      | User i \<Rightarrow> Inr (v\<lparr>user_id := Some i\<rparr>))"

text \<open>
  \<^verbatim>\<open>_refresh_visitor\<close>. Only \<^verbatim>\<open>DoesNotExist\<close> is caught: a session key that is
  no number leaves the function with the \<^verbatim>\<open>ValueError\<close> of the lookup. With a session
  that has no key, \<^verbatim>\<open>get(pk=None)\<close> finds no row and the new object is inserted under
  the next automatic id. An insertion moves the next automatic id above the id inserted.
\<close>

definition refresh_visitor ::
  "user option \<Rightarrow> request \<Rightarrow> datetime \<Rightarrow> datetime \<Rightarrow> store \<Rightarrow> error + (visitor \<times> store)" where
  "refresh_visitor usr request visit_time clock_reading db =
     (case r_session request of
        None \<Rightarrow> Inl AttributeError
      | Some sess \<Rightarrow>
          let key = s_session_key sess
          in case objects_get (visitors db) key of
               Inl e \<Rightarrow> Inl e
             | Inr found \<Rightarrow>
                 (case (case found of
                          Some v \<Rightarrow> Inr v
                        | None \<Rightarrow>
                            (case pk_of_key db key of
                               Inl e \<Rightarrow> Inl e
                             | Inr n \<Rightarrow>
                                 Inr ((Visitor_init n clock_reading)
                                        \<lparr>ip_address := get_ip_address request\<rparr>))) of
                    Inl e \<Rightarrow> Inl e
                  | Inr visitor0 \<Rightarrow>
                      let assigned =
                            (case usr of
                               Some u \<Rightarrow>
                                 if \<not> truthy_int (user_id visitor0) then assign_user visitor0 u
                                 else Inr visitor0
                             | None \<Rightarrow> Inr visitor0)
                      in case assigned of
                           Inl e \<Rightarrow> Inl e
                         | Inr visitor1 \<Rightarrow>
                             let visitor2 =
                                   visitor1\<lparr>expiry_age := Some (s_expiry_age sess),
                                            expiry_time := Some (s_expiry_date sess)\<rparr>;
                                 agent = r_META request ''HTTP_USER_AGENT'';
                                 visitor3 =
                                   (if truthy_str agent
                                    then visitor2\<lparr>user_agent := map_option smart_text agent\<rparr>
                                    else visitor2);
                                 seconds =
                                   (case start_time visitor3 of
                                      Some started \<Rightarrow> total_seconds (visit_time - started)
                                    | None \<Rightarrow> 0);
                                 visitor4 = visitor3\<lparr>time_on_site := Some (py_int seconds)\<rparr>
                             in Inr (visitor4,
                                     db\<lparr>visitors := save visitor4 (visitors db),
                                        next_id :=
                                          (case found of
                                             Some v \<Rightarrow> next_id db
                                           | None \<Rightarrow>
                                               max (next_id db) (nat (pk visitor4 + 1)))\<rparr>)))"

text \<open>
  \<^verbatim>\<open>_refresh_cookie_visitor\<close>. The session key is read before the cookie is looked
  at. A session without a key cannot be stored: the column \<^verbatim>\<open>session_key\<close> is not
  nullable.
\<close>

definition cookie_name :: string where
  "cookie_name = ''ask_for_login_or_newsletter''"

definition refresh_cookie_visitor ::
  "user option \<Rightarrow> request \<Rightarrow> datetime \<Rightarrow> datetime \<Rightarrow> store \<Rightarrow> error + (visitor option \<times> store)" where
  "refresh_cookie_visitor usr request visit_time clock_reading db =
     (case r_session request of
        None \<Rightarrow> Inl AttributeError
      | Some sess \<Rightarrow>
          (case r_COOKIES request cookie_name of
             None \<Rightarrow> Inr (None, db)
           | Some token \<Rightarrow>
               if token = [] then Inr (None, db)
               else
                 let agent0 = r_META request ''HTTP_USER_AGENT'';
                     agent = (if truthy_str agent0 then map_option smart_text agent0 else agent0)
                 in case s_session_key sess of
                      None \<Rightarrow> Inl IntegrityError
                    | Some k \<Rightarrow>
                        let (obj, db1) =
                              objects_create
                                (\<lambda>v. v\<lparr>session_key := k,
                                        ip_address := get_ip_address request,
                                        cookie_key := token,
                                        time_on_site := Some 1,
                                        expiry_age := Some (s_expiry_age sess),
                                        expiry_time := Some (s_expiry_date sess),
                                        user_agent := agent\<rparr>)
                                clock_reading db
                        in Inr (Some obj, db1\<lparr>visitors := save obj (visitors db1)\<rparr>)))"

text \<open>\<^verbatim>\<open>_add_pageview\<close>: one more row of the page view table.\<close>

definition add_pageview :: "config \<Rightarrow> visitor \<Rightarrow> request \<Rightarrow> datetime \<Rightarrow> store \<Rightarrow> store" where
  "add_pageview cfg v request time db =
     (let ref = (if TRACK_REFERER cfg then r_META request ''HTTP_REFERER'' else None);
          query = (if TRACK_QUERY_STRING cfg then r_META request ''QUERY_STRING'' else None);
          row = \<lparr>pv_visitor = pk v, url = r_path request, referer = ref,
                 query_string = query, pv_method = r_method request, view_time = time\<rparr>
      in db\<lparr>pageviews := pageviews db @ [row]\<rparr>)"

text \<open>\<^verbatim>\<open>request.session.save()\<close> of a session without a key mints one.\<close>

definition session_save :: "session \<Rightarrow> session" where
  "session_save sess = sess\<lparr>s_session_key := Some (s_save_key sess)\<rparr>"

text \<open>
  \<^verbatim>\<open>VisitorTrackingMiddleware.process_response\<close>. The response goes back as it came;
  the result here is the store after the call, or the exception raised. Its first lines,
  \<^verbatim>\<open>user = getattr(request, 'user', None)\<close> with an anonymous user set to
  \<^verbatim>\<open>None\<close>, are \<open>tracked_user\<close>.
\<close>

definition tracked_user :: "request \<Rightarrow> user option" where
  "tracked_user request =
     (case r_user request of
        None \<Rightarrow> None
      | Some u \<Rightarrow> if is_anonymous u then None else Some u)"

definition process_response ::
  "config \<Rightarrow> clock \<Rightarrow> store \<Rightarrow> request \<Rightarrow> response \<Rightarrow> error + store" where
  "process_response cfg clk db request response =
     (let usr = tracked_user request
      in if \<not> should_track cfg usr request response then Inr db
         else
           case r_session request of
             None \<Rightarrow> Inl AttributeError
           | Some sess \<Rightarrow>
               let sess1 = (if \<not> truthy_str (s_session_key sess) then session_save sess
                            else sess);
                   request1 = request\<lparr>r_session := Some sess1\<rparr>;
                   now = process_now clk;
                   refreshed =
                     (if TRACK_ANONYMOUS_USERS_WITH_COOKIES cfg
                      then refresh_cookie_visitor usr request1 now (default_now clk) db
                      else (case refresh_visitor usr request1 now (default_now clk) db of
                              Inl e \<Rightarrow> Inl e
                            | Inr (v, db1) \<Rightarrow> Inr (Some v, db1)))
               in case refreshed of
                    Inl e \<Rightarrow> Inl e
                  | Inr (vis, db1) \<Rightarrow>
                      if TRACK_PAGEVIEWS cfg \<and> \<not> TRACK_ANONYMOUS_USERS_WITH_COOKIES cfg
                      then (case vis of
                              None \<Rightarrow> Inl ValueError
                            | Some v \<Rightarrow> Inr (add_pageview cfg v request1 now db1))
                      else Inr db1)"

section \<open>\<^verbatim>\<open>SetAndUpdateCookieMiddleware\<close>\<close>

definition MAX_TRIES :: nat where
  "MAX_TRIES = 16"

text \<open>
  \<^verbatim>\<open>ucode\<close>. The random source is the sequence of the strings that the successive
  calls of \<^verbatim>\<open>str(uuid.uuid4())\<close> give: \<open>uuid4 i\<close> is the result of call number \<open>i\<close>.
  The loop keeps the three variables of the source.
\<close>

function ucode_while ::
  "(nat \<Rightarrow> string) \<Rightarrow> store \<Rightarrow> nat \<Rightarrow> bool \<Rightarrow> string \<Rightarrow> error + string" where
  "ucode_while uuid4 db loop_num unique new_code =
     (if \<not> unique then
        (if loop_num < MAX_TRIES then
           (let code = uuid4 loop_num;
                unique1 = (if \<not> filter_session_key_exists db code then True else unique)
            in ucode_while uuid4 db (loop_num + 1) unique1 code)
         else Inl ValueError)
      else Inr new_code)"
  by pat_completeness auto
termination
  by (relation "measure (\<lambda>(uuid4, db, loop_num, unique, new_code).
                  if unique then 0 else Suc (MAX_TRIES - loop_num))") auto

declare ucode_while.simps [simp del]

definition ucode :: "(nat \<Rightarrow> string) \<Rightarrow> store \<Rightarrow> error + string" where
  "ucode uuid4 db = ucode_while uuid4 db 0 False []"

definition sentinel :: string where
  "sentinel = ''user_registered''"

definition max_age :: int where
  "max_age = 360 * 24 * 60 * 60"

text \<open>
  \<^verbatim>\<open>response.set_cookie\<close>. The expiry is kept as the timestamp, not as the formatted
  date.
\<close>

definition set_cookie ::
  "response \<Rightarrow> string \<Rightarrow> string \<Rightarrow> int \<Rightarrow> datetime \<Rightarrow> string option \<Rightarrow> bool option \<Rightarrow> response" where
  "set_cookie response k v age expires cdomain secure =
     response\<lparr>cookies := (cookies response)
        (k \<mapsto> \<lparr>c_value = v, c_max_age = age, c_expires = expires,
                 c_domain = cdomain, c_secure = secure\<rparr>)\<rparr>"

text \<open>
  \<^verbatim>\<open>SetAndUpdateCookieMiddleware.process_response\<close>; \<open>utcnow\<close> is the reading of
  \<^verbatim>\<open>datetime.datetime.utcnow()\<close>. A request without \<^verbatim>\<open>user\<close> raises
  \<^verbatim>\<open>AttributeError\<close>.
\<close>

definition cookie_process_response ::
  "config \<Rightarrow> (nat \<Rightarrow> string) \<Rightarrow> datetime \<Rightarrow> store \<Rightarrow> request \<Rightarrow> response \<Rightarrow> error + response" where
  "cookie_process_response cfg uuid4 utcnow db request response =
     (let value0 = r_COOKIES request cookie_name;
          minted = (if \<not> truthy_str value0 then ucode uuid4 db
                    else (case value0 of Some v \<Rightarrow> Inr v | None \<Rightarrow> Inr []))
      in case minted of
           Inl e \<Rightarrow> Inl e
         | Inr value1 \<Rightarrow>
             (case r_user request of
                None \<Rightarrow> Inl AttributeError
              | Some u \<Rightarrow>
                  let value2 = (if is_authenticated u then sentinel else value1)
                  in if \<not> is_authenticated u \<and> value2 \<noteq> sentinel
                     then Inr (set_cookie response cookie_name value2 max_age
                                 (utcnow + max_age * 1000000)
                                 (SESSION_COOKIE_DOMAIN cfg)
                                 (if SESSION_COOKIE_SECURE cfg then Some True else None))
                     else Inr response))"

section \<open>Runs and concrete inputs\<close>

text \<open>
  The store that a sequence of sightings leaves: each sighting is one call of the
  tracking middleware, with its clock readings, request and response.
\<close>

fun run_sightings :: "config \<Rightarrow> store \<Rightarrow> (clock \<times> request \<times> response) list \<Rightarrow> error + store" where
  "run_sightings cfg db [] = Inr db"
| "run_sightings cfg db ((clk, request, response) # rest) =
     (case process_response cfg clk db request response of
        Inl e \<Rightarrow> Inl e
      | Inr db1 \<Rightarrow> run_sightings cfg db1 rest)"

text \<open>
  A store is well formed when no two rows share an id and every id in use lies below
  the next automatic one.
\<close>

definition wf_store :: "store \<Rightarrow> bool" where
  "wf_store db =
     (distinct (map pk (visitors db)) \<and>
      list_all (\<lambda>r. pk r < int (next_id db)) (visitors db))"

definition empty_store :: store where
  "empty_store = \<lparr>visitors = [], pageviews = [], next_id = 1\<rparr>"

definition session_config :: config where
  "session_config =
     \<lparr>TRACK_AJAX_REQUESTS = False, TRACK_ANONYMOUS_USERS = True,
      TRACK_IGNORE_STATUS_CODES = [404], track_ignore_urls = [],
      TRACK_PAGEVIEWS = False, TRACK_QUERY_STRING = False, TRACK_REFERER = False,
      TRACK_ANONYMOUS_USERS_WITH_COOKIES = False,
      SESSION_COOKIE_DOMAIN = None, SESSION_COOKIE_SECURE = False\<rparr>"

definition cookie_config :: config where
  "cookie_config =
     session_config\<lparr>TRACK_PAGEVIEWS := True, TRACK_ANONYMOUS_USERS_WITH_COOKIES := True\<rparr>"

definition a_session :: session where
  "a_session =
     \<lparr>s_session_key = Some ''q8m2x7c1'', s_expiry_age = 1209600,
      s_expiry_date = 1209700000000, s_save_key = ''n4t6w0z5''\<rparr>"

definition a_request :: request where
  "a_request =
     \<lparr>r_session = Some a_session, r_user = Some AnonymousUser, r_is_ajax = False,
      r_path_info = ''/home'', r_path = ''/home'', r_method = ''GET'',
      r_META = Map.empty, r_COOKIES = Map.empty, r_ip = ''10.0.0.7''\<rparr>"

definition a_token :: string where
  "a_token = ''3f2a9c4e-51b7-4d08-9e6a-7c1d0b8f2a35''"

definition a_cookie_request :: request where
  "a_cookie_request = a_request\<lparr>r_COOKIES := [cookie_name \<mapsto> a_token]\<rparr>"

definition a_response :: response where
  "a_response = \<lparr>status_code = 200, cookies = Map.empty\<rparr>"

definition at_second :: "int \<Rightarrow> clock" where
  "at_second n = \<lparr>process_now = n * 1000000, default_now = n * 1000000\<rparr>"

text \<open>A session whose key is a number, and a request with that session.\<close>

definition a_numeric_session :: session where
  "a_numeric_session = a_session\<lparr>s_session_key := Some ''00000000000000000000000000000007''\<rparr>"

definition a_numeric_request :: request where
  "a_numeric_request = a_request\<lparr>r_session := Some a_numeric_session\<rparr>"

definition request_as :: "user \<Rightarrow> request" where
  "request_as u = a_numeric_request\<lparr>r_user := Some u\<rparr>"

definition cookie_request_as :: "user \<Rightarrow> request" where
  "cookie_request_as u = a_cookie_request\<lparr>r_user := Some u\<rparr>"

definition a_404_response :: response where
  "a_404_response = \<lparr>status_code = 404, cookies = Map.empty\<rparr>"

text \<open>
  A row as session mode writes it for the numeric session, and a row as cookie mode
  writes it.
\<close>

definition session_row :: "int option \<Rightarrow> int \<Rightarrow> int \<Rightarrow> visitor" where
  "session_row uid started seconds =
     \<lparr>pk = 7, session_key = [], cookie_key = [], user_id = uid,
      ip_address = ''10.0.0.7'', user_agent = None, start_time = Some (started * 1000000),
      expiry_age = Some 1209600, expiry_time = Some 1209700000000,
      time_on_site = Some seconds, end_time = None\<rparr>"

definition cookie_row :: "nat \<Rightarrow> int \<Rightarrow> visitor" where
  "cookie_row n started =
     \<lparr>pk = int n, session_key = ''q8m2x7c1'', cookie_key = a_token, user_id = None,
      ip_address = ''10.0.0.7'', user_agent = None, start_time = Some (started * 1000000),
      expiry_age = Some 1209600, expiry_time = Some 1209700000000,
      time_on_site = Some 1, end_time = None\<rparr>"

definition session_store :: "visitor \<Rightarrow> store" where
  "session_store r = \<lparr>visitors = [r], pageviews = [], next_id = 8\<rparr>"

definition cookie_store_1 :: store where
  "cookie_store_1 = \<lparr>visitors = [cookie_row 1 100], pageviews = [], next_id = 2\<rparr>"

definition cookie_store_2 :: store where
  "cookie_store_2 =
     \<lparr>visitors = [cookie_row 1 100, cookie_row 2 130], pageviews = [], next_id = 3\<rparr>"

text \<open>
  Three random sources: one that draws the same token every time, one that draws a
  string in use as a session key three times and then that token, and one that draws the
  string in use as a session key every time.
\<close>

definition same_draws :: "nat \<Rightarrow> string" where
  "same_draws i = a_token"

definition late_draws :: "nat \<Rightarrow> string" where
  "late_draws i = (if i < 3 then ''q8m2x7c1'' else a_token)"

definition session_key_draws :: "nat \<Rightarrow> string" where
  "session_key_draws i = ''q8m2x7c1''"

section \<open>Unfolding the model\<close>

lemmas model_defs = process_response_def tracked_user_def should_track_def refresh_visitor_def
  refresh_cookie_visitor_def add_pageview_def session_save_def objects_get_def save_def
  row_with_pk_def pk_of_key_def py_int_of_str_def strip_def is_space_def digit_of_def
  Visitor_init_def objects_create_def filter_session_key_exists_def identity_key_exists_def
  truthy_str_def truthy_int_def py_int_def total_seconds_def get_ip_address_def
  smart_text_def lstrip_slash_def assign_user_def cookie_name_def
  cookie_process_response_def set_cookie_def sentinel_def max_age_def

lemmas example_defs = empty_store_def session_config_def cookie_config_def a_session_def
  a_request_def a_token_def a_cookie_request_def a_response_def at_second_def
  a_numeric_session_def a_numeric_request_def
  request_as_def cookie_request_as_def a_404_response_def session_row_def cookie_row_def
  session_store_def cookie_store_1_def cookie_store_2_def same_draws_def late_draws_def
  session_key_draws_def

section \<open>The table of visitors\<close>

lemma list_ex_pk: "list_ex (\<lambda>r. pk r = k) rows = (k \<in> pk ` set rows)"
  by (induction rows) auto



lemma map_pk_replace: "map pk (map (\<lambda>r. if pk r = pk v then v else r) rows) = map pk rows"
  by (induction rows) auto

lemma map_pk_save:
  "map pk (save v rows) = (if pk v \<in> pk ` set rows then map pk rows else map pk rows @ [pk v])"
  by (simp add: save_def list_ex_pk map_pk_replace)


lemma set_save: "set (save v rows) \<subseteq> insert v (set rows)"
  by (auto simp: save_def)

lemma save_last_again: "pk v \<notin> pk ` set rows \<Longrightarrow> save v (rows @ [v]) = rows @ [v]"
proof -
  assume fresh: "pk v \<notin> pk ` set rows"
  then have "map (\<lambda>r. if pk r = pk v then v else r) rows = rows"
    by (induction rows) auto
  then show ?thesis by (simp add: save_def)
qed



lemma row_with_pk_Some: "row_with_pk rows k = Some v \<Longrightarrow> pk v = k \<and> v \<in> set rows"
  by (induction rows) (auto simp: row_with_pk_def split: if_splits)




lemma objects_get_number:
  "py_int_of_str k = Some n \<Longrightarrow> objects_get rows (Some k) = Inr (row_with_pk rows n)"
  by (simp add: objects_get_def)

lemma objects_get_no_number:
  "py_int_of_str k = None \<Longrightarrow> objects_get rows (Some k) = Inl ValueError"
  by (simp add: objects_get_def)

lemma wf_store_fresh: "wf_store db \<Longrightarrow> int (next_id db) \<notin> pk ` set (visitors db)"
  by (auto simp: wf_store_def list_all_iff)

lemma wf_store_known_below:
  "wf_store db \<Longrightarrow> v \<in> set (visitors db) \<Longrightarrow> pk v < int (next_id db)"
  by (simp add: wf_store_def list_all_iff)




lemma process_response_untracked:
  "\<not> should_track cfg (tracked_user request) request response \<Longrightarrow>
   process_response cfg clk db request response = Inr db"
  by (simp add: process_response_def)

lemma should_track_session:
  "should_track cfg usr request response \<Longrightarrow> \<exists>sess. r_session request = Some sess"
  by (cases "r_session request") (auto simp: should_track_def)

section \<open>The two ways of recording a sighting\<close>

lemma session_key_after_save:
  "\<exists>k. s_session_key (if \<not> truthy_str (s_session_key sess) then session_save sess else sess) = Some k"
  by (cases "s_session_key sess") (auto simp: truthy_str_def session_save_def)

lemma refresh_cookie_visitor_no_token:
  "r_session request = Some sess \<Longrightarrow> \<not> truthy_str (r_COOKIES request cookie_name) \<Longrightarrow>
   refresh_cookie_visitor usr request t c db = Inr (None, db)"
  by (auto simp: refresh_cookie_visitor_def truthy_str_def split: option.splits)

lemma refresh_cookie_visitor_token:
  assumes "r_session request = Some sess" and "s_session_key sess = Some k"
    and "r_COOKIES request cookie_name = Some token" and "token \<noteq> []"
    and "wf_store db"
  shows "\<exists>obj. refresh_cookie_visitor usr request t c db =
            Inr (Some obj, db\<lparr>visitors := visitors db @ [obj], next_id := Suc (next_id db)\<rparr>)
          \<and> pk obj = int (next_id db) \<and> cookie_key obj = token \<and> session_key obj = k
          \<and> time_on_site obj = Some 1 \<and> user_id obj = None \<and> start_time obj = Some c"
proof -
  have fresh: "int (next_id db) \<notin> pk ` set (visitors db)"
    using assms(5) by (rule wf_store_fresh)
  define agent where "agent = (if truthy_str (r_META request ''HTTP_USER_AGENT'')
      then map_option smart_text (r_META request ''HTTP_USER_AGENT'')
      else r_META request ''HTTP_USER_AGENT'')"
  define obj where "obj = (Visitor_init (int (next_id db)) c)
      \<lparr>session_key := k, ip_address := get_ip_address request, cookie_key := token,
       time_on_site := Some 1, expiry_age := Some (s_expiry_age sess),
       expiry_time := Some (s_expiry_date sess), user_agent := agent\<rparr>"
  have pk: "pk obj = int (next_id db)" by (simp add: obj_def Visitor_init_def)
  have again: "save obj (visitors db @ [obj]) = visitors db @ [obj]"
    using fresh pk by (simp add: save_last_again)
  have "refresh_cookie_visitor usr request t c db =
          Inr (Some obj, db\<lparr>visitors := visitors db @ [obj], next_id := Suc (next_id db)\<rparr>)"
    using assms(1-4) again
    by (simp add: refresh_cookie_visitor_def objects_create_def Let_def obj_def agent_def)
  moreover have "cookie_key obj = token" "session_key obj = k" "time_on_site obj = Some 1"
    "user_id obj = None" "start_time obj = Some c"
    by (simp_all add: obj_def Visitor_init_def)
  ultimately show ?thesis using pk by blast
qed

lemma cookie_mode_untracked_or_no_token:
  assumes "TRACK_ANONYMOUS_USERS_WITH_COOKIES cfg"
    and "\<not> should_track cfg (tracked_user request) request response
         \<or> \<not> truthy_str (r_COOKIES request cookie_name)"
  shows "process_response cfg clk db request response = Inr db"
proof (cases "should_track cfg (tracked_user request) request response")
  case False
  then show ?thesis by (rule process_response_untracked)
next
  case True
  then obtain sess where sess: "r_session request = Some sess"
    using should_track_session by blast
  from True assms(2) have none: "\<not> truthy_str (r_COOKIES request cookie_name)" by simp
  define sess1 where "sess1 = (if \<not> truthy_str (s_session_key sess) then session_save sess else sess)"
  have "refresh_cookie_visitor (tracked_user request) (request\<lparr>r_session := Some sess1\<rparr>)
          (process_now clk) (default_now clk) db = Inr (None, db)"
    using none by (intro refresh_cookie_visitor_no_token [of _ sess1]) simp_all
  then show ?thesis
    using True sess assms(1) by (simp add: process_response_def Let_def sess1_def)
qed

lemma cookie_mode_token:
  assumes "TRACK_ANONYMOUS_USERS_WITH_COOKIES cfg"
    and "should_track cfg (tracked_user request) request response"
    and "r_COOKIES request cookie_name = Some token" and "token \<noteq> []"
    and "wf_store db"
  shows "\<exists>obj. process_response cfg clk db request response =
            Inr (db\<lparr>visitors := visitors db @ [obj], next_id := Suc (next_id db)\<rparr>)
          \<and> pk obj = int (next_id db) \<and> cookie_key obj = token
          \<and> time_on_site obj = Some 1 \<and> user_id obj = None"
proof -
  from assms(2) obtain sess where sess: "r_session request = Some sess"
    using should_track_session by blast
  define sess1 where "sess1 = (if \<not> truthy_str (s_session_key sess) then session_save sess else sess)"
  obtain k where k: "s_session_key sess1 = Some k"
    unfolding sess1_def using session_key_after_save by blast
  obtain obj where obj:
    "refresh_cookie_visitor (tracked_user request) (request\<lparr>r_session := Some sess1\<rparr>)
       (process_now clk) (default_now clk) db =
     Inr (Some obj, db\<lparr>visitors := visitors db @ [obj], next_id := Suc (next_id db)\<rparr>)"
    "pk obj = int (next_id db)" "cookie_key obj = token"
    "time_on_site obj = Some 1" "user_id obj = None"
    using refresh_cookie_visitor_token [of "request\<lparr>r_session := Some sess1\<rparr>" sess1 k token db
        "tracked_user request" "process_now clk" "default_now clk"] k assms(3-5)
    by auto
  have "process_response cfg clk db request response =
          Inr (db\<lparr>visitors := visitors db @ [obj], next_id := Suc (next_id db)\<rparr>)"
    using assms(1,2) sess obj(1) by (simp add: process_response_def Let_def sess1_def)
  with obj(2-5) show ?thesis by blast
qed


lemma refresh_visitor_result:
  "refresh_visitor usr request t c db = Inr (v', db1) \<Longrightarrow>
   visitors db1 = save v' (visitors db)
   \<and> pageviews db1 = pageviews db
   \<and> (next_id db1 = next_id db \<and> pk v' \<in> pk ` set (visitors db)
      \<or> next_id db1 = max (next_id db) (nat (pk v' + 1)))"
  by (auto simp: refresh_visitor_def Let_def objects_get_def pk_of_key_def assign_user_def
      Visitor_init_def
      split: option.splits sum.splits if_splits user.splits dest!: row_with_pk_Some)

lemma refresh_visitor_no_number:
  "r_session request = Some sess \<Longrightarrow> s_session_key sess = Some k \<Longrightarrow>
   py_int_of_str k = None \<Longrightarrow> refresh_visitor usr request t c db = Inl ValueError"
  by (simp add: refresh_visitor_def Let_def objects_get_def)

lemma session_mode_step:
  assumes "\<not> TRACK_ANONYMOUS_USERS_WITH_COOKIES cfg"
    and "should_track cfg (tracked_user request) request response"
    and "r_session request = Some sess" and "truthy_str (s_session_key sess)"
  shows "process_response cfg clk db request response =
           (case refresh_visitor (tracked_user request) request (process_now clk)
                   (default_now clk) db of
              Inl e \<Rightarrow> Inl e
            | Inr (v, db1) \<Rightarrow>
                if TRACK_PAGEVIEWS cfg
                then Inr (add_pageview cfg v request (process_now clk) db1)
                else Inr db1)"
proof -
  have same: "request\<lparr>r_session := Some sess\<rparr> = request"
    using assms(3) by simp
  show ?thesis
    using assms by (simp add: process_response_def Let_def same split: sum.splits)
qed

lemma session_mode_result:
  assumes "\<not> TRACK_ANONYMOUS_USERS_WITH_COOKIES cfg"
    and "should_track cfg (tracked_user request) request response"
    and "process_response cfg clk db request response = Inr db'"
  shows "\<exists>v' db1 request1.
           refresh_visitor (tracked_user request) request1 (process_now clk) (default_now clk) db
             = Inr (v', db1)
           \<and> visitors db' = visitors db1 \<and> next_id db' = next_id db1"
proof -
  from assms(2) obtain sess where sess: "r_session request = Some sess"
    using should_track_session by blast
  define request1 where "request1 =
    request\<lparr>r_session := Some (if \<not> truthy_str (s_session_key sess) then session_save sess
                                else sess)\<rparr>"
  define result where "result =
    refresh_visitor (tracked_user request) request1 (process_now clk) (default_now clk) db"
  have unfolded: "process_response cfg clk db request response =
      (case result of
         Inl e \<Rightarrow> Inl e
       | Inr (v, db1) \<Rightarrow>
           if TRACK_PAGEVIEWS cfg
           then Inr (add_pageview cfg v request1 (process_now clk) db1)
           else Inr db1)"
    using assms(1,2) sess
    by (simp add: process_response_def Let_def request1_def result_def split: sum.splits)
  show ?thesis
  proof (cases result)
    case (Inl e)
    with unfolded assms(3) show ?thesis by simp
  next
    case (Inr p)
    obtain v' db1 where p: "p = (v', db1)" by (cases p)
    from unfolded assms(3) Inr p
    have "visitors db' = visitors db1 \<and> next_id db' = next_id db1"
      by (auto simp: add_pageview_def Let_def split: if_splits)
    with Inr p show ?thesis unfolding result_def by blast
  qed
qed

section \<open>Properties of the token generator\<close>

text \<open>
  The loop equation is unfolded one step at a time: a run that has found its token
  returns it, a run that has used up its attempts raises, and otherwise the next
  candidate is drawn and tested.
\<close>

lemma ucode_while_done: "ucode_while uuid4 db n True c = Inr c"
  by (subst ucode_while.simps) simp

lemma ucode_while_exhausted:
  "\<not> n < MAX_TRIES \<Longrightarrow> ucode_while uuid4 db n False c = Inl ValueError"
  by (subst ucode_while.simps) simp

lemma ucode_while_step:
  "n < MAX_TRIES \<Longrightarrow>
   ucode_while uuid4 db n False c =
     (if filter_session_key_exists db (uuid4 n)
      then ucode_while uuid4 db (Suc n) False (uuid4 n)
      else Inr (uuid4 n))"
  by (subst ucode_while.simps) (simp add: ucode_while_done Let_def)

lemma ucode_while_all_collide:
  "(\<And>i. n \<le> i \<Longrightarrow> i < MAX_TRIES \<Longrightarrow> filter_session_key_exists db (uuid4 i)) \<Longrightarrow>
   ucode_while uuid4 db n False c = Inl ValueError"
proof (induction "MAX_TRIES - n" arbitrary: n c)
  case 0
  then show ?case by (simp add: ucode_while_exhausted)
next
  case (Suc d)
  then have lt: "n < MAX_TRIES" and d: "d = MAX_TRIES - Suc n" by arith+
  have "ucode_while uuid4 db (Suc n) False (uuid4 n) = Inl ValueError"
    using Suc.hyps(1) [OF d] Suc.prems by simp
  with lt Suc.prems show ?case by (simp add: ucode_while_step)
qed

lemma ucode_while_first:
  "n \<le> i \<Longrightarrow> i < MAX_TRIES \<Longrightarrow> \<not> filter_session_key_exists db (uuid4 i) \<Longrightarrow>
   (\<And>j. n \<le> j \<Longrightarrow> j < i \<Longrightarrow> filter_session_key_exists db (uuid4 j)) \<Longrightarrow>
   ucode_while uuid4 db n False c = Inr (uuid4 i)"
proof (induction "i - n" arbitrary: n c)
  case 0
  then have "n = i" by simp
  with 0 show ?case by (simp add: ucode_while_step)
next
  case (Suc d)
  then have lt: "n < i" and d: "d = i - Suc n" by arith+
  have "ucode_while uuid4 db (Suc n) False (uuid4 n) = Inr (uuid4 i)"
    using Suc.hyps(1) [OF d] Suc.prems lt by simp
  moreover have "filter_session_key_exists db (uuid4 n)"
    using Suc.prems(4) [of n] lt by simp
  moreover have "n < MAX_TRIES" using lt Suc.prems(2) by simp
  ultimately show ?case by (simp add: ucode_while_step)
qed

text \<open>
  A token that the generator returns never occurs in the column \<^verbatim>\<open>session_key\<close>:
  that column is the one the loop tests.
\<close>

lemma ucode_while_result_unused:
  "ucode_while uuid4 db n False c0 = Inr c \<Longrightarrow> \<not> filter_session_key_exists db c"
proof (induction "MAX_TRIES - n" arbitrary: n c0)
  case 0
  then show ?case by (simp add: ucode_while_exhausted)
next
  case (Suc d)
  then have lt: "n < MAX_TRIES" and d: "d = MAX_TRIES - Suc n" by arith+
  show ?case
  proof (cases "filter_session_key_exists db (uuid4 n)")
    case True
    with lt Suc.prems have "ucode_while uuid4 db (Suc n) False (uuid4 n) = Inr c"
      by (simp add: ucode_while_step)
    with Suc.hyps(1) [OF d] show ?thesis by blast
  next
    case False
    with lt Suc.prems show ?thesis by (simp add: ucode_while_step)
  qed
qed

lemma ucode_result_not_a_session_key:
  "ucode uuid4 db = Inr c \<Longrightarrow> \<not> filter_session_key_exists db c"
  unfolding ucode_def by (rule ucode_while_result_unused)

section \<open>Well-formed stores\<close>

text \<open>
  Both ways of recording a sighting keep the store well formed, so every store that a
  sequence of sightings builds from the empty store is well formed.
\<close>

lemma wf_store_save:
  assumes "wf_store db" and "visitors db1 = save v (visitors db)"
    and "next_id db1 = next_id db \<and> pk v \<in> pk ` set (visitors db)
         \<or> next_id db1 = max (next_id db) (nat (pk v + 1))"
  shows "wf_store db1"
proof -
  have d: "distinct (map pk (visitors db1))"
    using assms(1,2) by (simp add: wf_store_def map_pk_save)
  have below: "pk v < int (next_id db1)"
  proof (cases "pk v \<in> pk ` set (visitors db)")
    case True
    then obtain r where "r \<in> set (visitors db)" "pk r = pk v" by auto
    with assms(1) have "pk v < int (next_id db)"
      using wf_store_known_below [of db r] by simp
    with assms(3) show ?thesis by auto
  next
    case False
    with assms(3) show ?thesis by auto
  qed
  have grows: "next_id db \<le> next_id db1"
    using assms(3) by auto
  have "\<And>r. r \<in> set (visitors db1) \<Longrightarrow> pk r < int (next_id db1)"
  proof -
    fix r assume "r \<in> set (visitors db1)"
    then have "r = v \<or> r \<in> set (visitors db)"
      using set_save [of v "visitors db"] assms(2) by auto
    then show "pk r < int (next_id db1)"
      using below grows wf_store_known_below [OF assms(1), of r] by auto
  qed
  with d show ?thesis by (simp add: wf_store_def list_all_iff)
qed

lemma wf_store_create:
  assumes "wf_store db" and "pk obj = int (next_id db)"
  shows "wf_store (db\<lparr>visitors := visitors db @ [obj], next_id := Suc (next_id db)\<rparr>)"
proof -
  have fresh: "int (next_id db) \<notin> pk ` set (visitors db)"
    using assms(1) by (rule wf_store_fresh)
  have "\<And>r. r \<in> set (visitors db) \<Longrightarrow> pk r < int (Suc (next_id db))"
    using wf_store_known_below [OF assms(1)] by fastforce
  with assms fresh show ?thesis by (auto simp: wf_store_def list_all_iff)
qed

lemma process_response_wf:
  assumes "wf_store db" and "process_response cfg clk db request response = Inr db'"
  shows "wf_store db'"
proof (cases "should_track cfg (tracked_user request) request response")
  case False
  with assms show ?thesis by (simp add: process_response_untracked)
next
  case tracked: True
  show ?thesis
  proof (cases "TRACK_ANONYMOUS_USERS_WITH_COOKIES cfg")
    case False
    from session_mode_result [OF False tracked assms(2)]
    obtain v' db1 request1 where r:
      "refresh_visitor (tracked_user request) request1 (process_now clk) (default_now clk) db
         = Inr (v', db1)"
      "visitors db' = visitors db1" "next_id db' = next_id db1"
      by blast
    from refresh_visitor_result [OF r(1)] r(2,3)
    have "visitors db' = save v' (visitors db)"
      "next_id db' = next_id db \<and> pk v' \<in> pk ` set (visitors db)
       \<or> next_id db' = max (next_id db) (nat (pk v' + 1))"
      by auto
    with assms(1) show ?thesis by (rule wf_store_save)
  next
    case True
    show ?thesis
    proof (cases "truthy_str (r_COOKIES request cookie_name)")
      case False
      with True assms show ?thesis
        using cookie_mode_untracked_or_no_token [of cfg request response clk db] by simp
    next
      case token: True
      then obtain token where "r_COOKIES request cookie_name = Some token" "token \<noteq> []"
        by (auto simp: truthy_str_def split: option.splits)
      with cookie_mode_token [OF True tracked _ _ assms(1), of token clk] assms(2)
      obtain obj where
        "db' = db\<lparr>visitors := visitors db @ [obj], next_id := Suc (next_id db)\<rparr>"
        "pk obj = int (next_id db)" by auto
      with assms(1) show ?thesis by (simp add: wf_store_create)
    qed
  qed
qed

lemma run_sightings_wf:
  "wf_store db \<Longrightarrow> run_sightings cfg db sightings = Inr db' \<Longrightarrow> wf_store db'"
proof (induction sightings arbitrary: db)
  case Nil
  then show ?case by simp
next
  case (Cons s rest)
  obtain clk request response where s: "s = (clk, request, response)" by (cases s) auto
  from Cons.prems(2) s obtain db1 where
    db1: "process_response cfg clk db request response = Inr db1"
    "run_sightings cfg db1 rest = Inr db'"
    by (auto split: sum.splits)
  from process_response_wf [OF Cons.prems(1) db1(1)] have "wf_store db1" .
  with Cons.IH db1(2) show ?case by blast
qed

lemma wf_store_empty: "wf_store empty_store"
  by (simp add: wf_store_def empty_store_def)

section \<open>A sighting in session mode\<close>

text \<open>
  A session key that is no number: the lookup raises, and the call ends with that
  \<^verbatim>\<open>ValueError\<close>; nothing is written.
\<close>

lemma session_mode_key_no_number:
  assumes "\<not> TRACK_ANONYMOUS_USERS_WITH_COOKIES cfg"
    and "should_track cfg (tracked_user request) request response"
    and "r_session request = Some sess" and "s_session_key sess = Some k" and "k \<noteq> []"
    and "py_int_of_str k = None"
  shows "process_response cfg clk db request response = Inl ValueError"
proof -
  have "truthy_str (s_session_key sess)" using assms(4,5) by (simp add: truthy_str_def)
  from session_mode_step [OF assms(1-3) this, of clk db]
    refresh_visitor_no_number [OF assms(3,4,6)]
  show ?thesis by simp
qed

text \<open>
  So it is with the key of an ordinary session, which has letters in it: the first
  sighting already ends with the error, and no row is written.
\<close>

lemma session_mode_ordinary_key_raises:
  "py_int_of_str ''q8m2x7c1'' = None
   \<and> process_response session_config (at_second 10) empty_store a_request a_response
       = Inl ValueError"
  by (simp add: model_defs example_defs Let_def)



section \<open>The cookie issuer and an authenticated user\<close>

lemma cookie_issuer_authenticated:
  "r_user request = Some (User i) \<Longrightarrow>
   cookie_process_response cfg uuid4 utcnow db request response = Inr response'
   \<Longrightarrow> response' = response"
  by (auto simp: cookie_process_response_def Let_def split: sum.splits if_splits)

lemma run_one_cookie_sighting:
  "run_sightings cookie_config empty_store [(at_second 100, a_cookie_request, a_response)]
     = Inr cookie_store_1"
  by (simp add: model_defs example_defs Let_def)

text \<open>
  What the loop of the generator does, in the terms of the column that it tests.
\<close>

lemma ucode_error_iff_16_collisions:
  "(ucode uuid4 db = Inl ValueError) =
     (\<forall>i<MAX_TRIES. filter_session_key_exists db (uuid4 i))
   \<and> MAX_TRIES = 16
   \<and> (\<forall>i<MAX_TRIES. \<not> filter_session_key_exists db (uuid4 i) \<and>
          (\<forall>j<i. filter_session_key_exists db (uuid4 j)) \<longrightarrow>
        ucode uuid4 db = Inr (uuid4 i))"
proof -
  have first: "ucode uuid4 db = Inr (uuid4 i)"
    if "i < MAX_TRIES" "\<not> filter_session_key_exists db (uuid4 i)"
       "\<forall>j<i. filter_session_key_exists db (uuid4 j)" for i
    unfolding ucode_def using that by (intro ucode_while_first) auto
  have all: "ucode uuid4 db = Inl ValueError"
    if "\<forall>i<MAX_TRIES. filter_session_key_exists db (uuid4 i)"
    unfolding ucode_def using that by (intro ucode_while_all_collide) auto
  have some: "\<exists>i<MAX_TRIES. \<not> filter_session_key_exists db (uuid4 i)
                \<and> (\<forall>j<i. filter_session_key_exists db (uuid4 j))"
    if "\<not> (\<forall>i<MAX_TRIES. filter_session_key_exists db (uuid4 i))"
  proof -
    define P where "P i = (i < MAX_TRIES \<and> \<not> filter_session_key_exists db (uuid4 i))" for i
    from that have "\<exists>i. P i" unfolding P_def by blast
    then obtain i where "P i" and "\<forall>j<i. \<not> P j"
      using exists_least_iff [of P] by blast
    then show ?thesis unfolding P_def by (intro exI [of _ i]) auto
  qed
  have "ucode uuid4 db \<noteq> Inl ValueError"
    if "\<not> (\<forall>i<MAX_TRIES. filter_session_key_exists db (uuid4 i))"
    using some [OF that] first by auto
  with all first show ?thesis by (auto simp: MAX_TRIES_def)
qed

section \<open>The claims of the specification\<close>

text \<open>
  C1. At most one Visitor row per identity key, in session mode and in cookie mode.
  In cookie mode the code does not do this: the source comments the cookie path with
  "A Visitor row is unique by cookie_key", yet \<^verbatim>\<open>_refresh_cookie_visitor\<close> calls
  \<^verbatim>\<open>Visitor.objects.create\<close> on every sighting. Two tracked sightings with the same
  session and the same cookie token, from the empty store, leave two rows with that token
  (the session-mode path looks the row up first and overwrites it).
\<close>

theorem cookie_mode_repeat_sighting_adds_row:
  "run_sightings cookie_config empty_store
     [(at_second 100, a_cookie_request, a_response),
      (at_second 130, a_cookie_request, a_response)] = Inr cookie_store_2
   \<and> map cookie_key (visitors cookie_store_2) = [a_token, a_token]
   \<and> map session_key (visitors cookie_store_2) = [''q8m2x7c1'', ''q8m2x7c1'']"
  by (simp add: model_defs example_defs Let_def)




text \<open>
  C3. When the policy filter returns false, which it does exactly when the request
  has no session, or is an excluded ajax request, or the status code is ignored, or the
  user is anonymous and anonymous users are not tracked, or the path matches an ignored
  pattern, processing the response leaves the store as it was: no Visitor row and no
  Pageview row is created or modified.
\<close>

theorem untracked_response_leaves_store:
  "(\<not> should_track cfg (tracked_user request) request response) =
     (r_session request = None
      \<or> (r_is_ajax request \<and> \<not> TRACK_AJAX_REQUESTS cfg)
      \<or> status_code response \<in> set (TRACK_IGNORE_STATUS_CODES cfg)
      \<or> (tracked_user request = None \<and> \<not> TRACK_ANONYMOUS_USERS cfg)
      \<or> list_ex (\<lambda>url_match. url_match (lstrip_slash (r_path_info request)))
           (track_ignore_urls cfg))
   \<and> (\<not> should_track cfg (tracked_user request) request response \<longrightarrow>
        process_response cfg clk db request response = Inr db)"
  by (simp add: process_response_untracked) (simp add: should_track_def)

theorem untracked_response_leaves_store_witness:
  "\<not> should_track session_config (tracked_user a_request) a_request a_404_response
   \<and> process_response session_config (at_second 100) cookie_store_2 a_request a_404_response
       = Inr cookie_store_2"
proof -
  have ignored: "\<not> should_track session_config (tracked_user a_request) a_request a_404_response"
    by (simp add: should_track_def example_defs)
  with untracked_response_leaves_store
         [of session_config a_request a_404_response "at_second 100" cookie_store_2]
  show ?thesis by blast
qed




text \<open>
  C5. In cookie mode every tracked sighting is recorded, a sighting without cookie
  token under a newly generated one. As stated this fails: \<^verbatim>\<open>_refresh_cookie_visitor\<close>
  returns at once when the request has no cookie token, and the tracking path never calls
  the generator. A tracked request without the cookie leaves the empty store empty.
\<close>

theorem cookie_mode_drops_sighting_without_token:
  "TRACK_ANONYMOUS_USERS_WITH_COOKIES cookie_config
   \<and> should_track cookie_config (tracked_user a_request) a_request a_response
   \<and> r_COOKIES a_request cookie_name = None
   \<and> process_response cookie_config (at_second 100) empty_store a_request a_response
       = Inr empty_store
   \<and> visitors empty_store = []"
  by (simp add: model_defs example_defs Let_def)

text \<open>
  C5 as amended: in cookie mode, a tracked sighting whose request carries a non-empty
  cookie token is recorded as one new Visitor row under that token; a tracked sighting
  whose request carries no cookie token, or an empty one, writes nothing (the sighting is
  dropped, and no token is generated for it on the tracking path).
\<close>

theorem cookie_mode_sighting_needs_token:
  assumes "TRACK_ANONYMOUS_USERS_WITH_COOKIES cfg"
    and "should_track cfg (tracked_user request) request response"
    and "wf_store db"
  shows "(\<not> truthy_str (r_COOKIES request cookie_name) \<longrightarrow>
            process_response cfg clk db request response = Inr db)
       \<and> (\<forall>token. r_COOKIES request cookie_name = Some token \<and> token \<noteq> [] \<longrightarrow>
            (\<exists>obj. process_response cfg clk db request response =
                      Inr (db\<lparr>visitors := visitors db @ [obj], next_id := Suc (next_id db)\<rparr>)
                  \<and> cookie_key obj = token))"
proof (intro conjI allI impI)
  assume "\<not> truthy_str (r_COOKIES request cookie_name)"
  then show "process_response cfg clk db request response = Inr db"
    using assms(1) by (intro cookie_mode_untracked_or_no_token) auto
next
  fix token
  assume "r_COOKIES request cookie_name = Some token \<and> token \<noteq> []"
  then show "\<exists>obj. process_response cfg clk db request response =
                      Inr (db\<lparr>visitors := visitors db @ [obj], next_id := Suc (next_id db)\<rparr>)
                  \<and> cookie_key obj = token"
    using cookie_mode_token [of cfg request response token db clk] assms by blast
qed

theorem cookie_mode_sighting_needs_token_witness:
  "TRACK_ANONYMOUS_USERS_WITH_COOKIES cookie_config
   \<and> should_track cookie_config (tracked_user a_request) a_request a_response
   \<and> should_track cookie_config (tracked_user a_cookie_request) a_cookie_request a_response
   \<and> wf_store empty_store
   \<and> \<not> truthy_str (r_COOKIES a_request cookie_name)
   \<and> process_response cookie_config (at_second 100) empty_store a_request a_response
       = Inr empty_store
   \<and> r_COOKIES a_cookie_request cookie_name = Some a_token \<and> a_token \<noteq> []
   \<and> (\<exists>obj. process_response cookie_config (at_second 100) empty_store a_cookie_request
               a_response =
               Inr (empty_store\<lparr>visitors := visitors empty_store @ [obj],
                                next_id := Suc (next_id empty_store)\<rparr>)
           \<and> cookie_key obj = a_token)"
proof -
  have mode: "TRACK_ANONYMOUS_USERS_WITH_COOKIES cookie_config"
    by (simp add: example_defs)
  have t1: "should_track cookie_config (tracked_user a_request) a_request a_response"
    and t2: "should_track cookie_config (tracked_user a_cookie_request) a_cookie_request
               a_response"
    by (simp_all add: should_track_def tracked_user_def lstrip_slash_def example_defs)
  have wf: "wf_store empty_store"
    by (simp add: wf_store_def example_defs)
  have none: "\<not> truthy_str (r_COOKIES a_request cookie_name)"
    by (simp add: truthy_str_def example_defs)
  have some: "r_COOKIES a_cookie_request cookie_name = Some a_token" "a_token \<noteq> []"
    by (simp_all add: example_defs)
  from cookie_mode_sighting_needs_token [OF mode t1 wf, of "at_second 100"] none
  have dropped: "process_response cookie_config (at_second 100) empty_store a_request
                   a_response = Inr empty_store"
    by blast
  from cookie_mode_sighting_needs_token [OF mode t2 wf, of "at_second 100"] some
  have kept: "\<exists>obj. process_response cookie_config (at_second 100) empty_store
                a_cookie_request a_response =
                Inr (empty_store\<lparr>visitors := visitors empty_store @ [obj],
                                 next_id := Suc (next_id empty_store)\<rparr>)
              \<and> cookie_key obj = a_token"
    by blast
  show ?thesis using mode t1 t2 wf none some dropped kept by blast
qed

text \<open>
  C6. For an authenticated user the cookie issuer overwrites the cookie of the
  browser with the sentinel \<^verbatim>\<open>user_registered\<close>. The code assigns the sentinel to its
  local \<^verbatim>\<open>value\<close> and then calls \<^verbatim>\<open>set_cookie\<close> only when the user is not
  authenticated, so the sentinel is never sent: for an authenticated user who has the
  cookie, the response goes out as it came, with no cookie set.
\<close>

theorem cookie_issuer_sets_no_cookie_when_authenticated:
  "cookie_process_response cookie_config same_draws 0 cookie_store_1
     (cookie_request_as (User 7)) a_response = Inr a_response
   \<and> cookies a_response cookie_name = None"
  by (simp add: model_defs example_defs Let_def)

text \<open>
  C7. A token that the generator returns is not among the identity keys of the
  Visitor rows, the identity key of cookie mode being the cookie token. The loop tests the
  column \<^verbatim>\<open>session_key\<close> and not \<^verbatim>\<open>cookie_key\<close>: with one row recorded in cookie mode
  under a token, a draw of that same token is returned as new.
\<close>

theorem ucode_returns_token_in_use:
  "run_sightings cookie_config empty_store [(at_second 100, a_cookie_request, a_response)]
     = Inr cookie_store_1
   \<and> map cookie_key (visitors cookie_store_1) = [a_token]
   \<and> ucode same_draws cookie_store_1 = Inr a_token"
proof -
  have "\<not> filter_session_key_exists cookie_store_1 (same_draws 0)"
    by (simp add: filter_session_key_exists_def example_defs)
  then have "ucode_while same_draws cookie_store_1 0 False [] = Inr (same_draws 0)"
    by (simp add: ucode_while_step MAX_TRIES_def)
  then show ?thesis
    using run_one_cookie_sighting
    by (simp add: ucode_def same_draws_def cookie_store_1_def cookie_row_def)
qed

text \<open>
  C8. The generator raises its error exactly when 16 successive candidates all
  collide with existing keys, the keys being the identity keys of the Visitor rows (the
  cookie tokens). The loop counts its 16 attempts as claimed, but it tests the column
  \<^verbatim>\<open>session_key\<close>, the defect of C7, so the equivalence fails in both directions on
  the store with one row recorded in cookie mode: 16 draws of the token of that row all
  collide with an existing key and the first is returned without error; and 16 draws of
  the session key of that row, none of which is an identity key, end in the error.
\<close>

theorem ucode_collisions_by_wrong_column:
  "list_all (identity_key_exists cookie_store_1) (map same_draws [0..<MAX_TRIES])
   \<and> ucode same_draws cookie_store_1 = Inr a_token
   \<and> \<not> list_ex (identity_key_exists cookie_store_1) (map session_key_draws [0..<MAX_TRIES])
   \<and> ucode session_key_draws cookie_store_1 = Inl ValueError"
proof -
  have stored: "identity_key_exists cookie_store_1 a_token"
    by (simp add: identity_key_exists_def example_defs)
  have other: "\<not> identity_key_exists cookie_store_1 ''q8m2x7c1''"
    by (simp add: identity_key_exists_def example_defs)
  have "\<not> filter_session_key_exists cookie_store_1 (same_draws 0)"
    by (simp add: filter_session_key_exists_def example_defs)
  then have "ucode_while same_draws cookie_store_1 0 False [] = Inr (same_draws 0)"
    by (simp add: ucode_while_step MAX_TRIES_def)
  then have returned: "ucode same_draws cookie_store_1 = Inr a_token"
    by (simp add: ucode_def same_draws_def)
  have "\<And>i. filter_session_key_exists cookie_store_1 (session_key_draws i)"
    by (simp add: filter_session_key_exists_def example_defs)
  then have raised: "ucode session_key_draws cookie_store_1 = Inl ValueError"
    unfolding ucode_def by (intro ucode_while_all_collide) auto
  from stored other returned raised show ?thesis
    by (simp add: list_all_iff list_ex_iff same_draws_def session_key_draws_def MAX_TRIES_def)
qed

text \<open>
  C9. In cookie mode, processing a response returns, never adds a Pageview row,
  whatever the page view flag, and a Visitor row that it inserts has
  \<^verbatim>\<open>time_on_site = 1\<close>.
\<close>

theorem cookie_mode_no_pageview_fixed_time_on_site:
  assumes "TRACK_ANONYMOUS_USERS_WITH_COOKIES cfg" and "wf_store db"
  shows "\<exists>db'. process_response cfg clk db request response = Inr db'
           \<and> pageviews db' = pageviews db
           \<and> (visitors db' = visitors db
              \<or> (\<exists>obj. visitors db' = visitors db @ [obj] \<and> time_on_site obj = Some 1))"
proof (cases "should_track cfg (tracked_user request) request response
              \<and> truthy_str (r_COOKIES request cookie_name)")
  case False
  then have "process_response cfg clk db request response = Inr db"
    using assms(1) by (intro cookie_mode_untracked_or_no_token) auto
  then show ?thesis by simp
next
  case True
  then obtain token where "r_COOKIES request cookie_name = Some token" "token \<noteq> []"
    by (auto simp: truthy_str_def split: option.splits)
  with True assms obtain obj where
    "process_response cfg clk db request response =
       Inr (db\<lparr>visitors := visitors db @ [obj], next_id := Suc (next_id db)\<rparr>)"
    "time_on_site obj = Some 1"
    using cookie_mode_token [of cfg request response token db clk] by auto
  then show ?thesis by simp
qed

theorem cookie_mode_no_pageview_fixed_time_on_site_witness:
  "TRACK_ANONYMOUS_USERS_WITH_COOKIES cookie_config \<and> TRACK_PAGEVIEWS cookie_config
   \<and> wf_store cookie_store_1
   \<and> process_response cookie_config (at_second 130) cookie_store_1 a_cookie_request a_response
       = Inr cookie_store_2
   \<and> (\<exists>db'. process_response cookie_config (at_second 130) cookie_store_1
               a_cookie_request a_response = Inr db'
           \<and> pageviews db' = pageviews cookie_store_1
           \<and> (visitors db' = visitors cookie_store_1
              \<or> (\<exists>obj. visitors db' = visitors cookie_store_1 @ [obj]
                        \<and> time_on_site obj = Some 1)))"
proof -
  have mode: "TRACK_ANONYMOUS_USERS_WITH_COOKIES cookie_config"
    and views: "TRACK_PAGEVIEWS cookie_config"
    by (simp_all add: example_defs)
  have wf: "wf_store cookie_store_1"
    by (simp add: wf_store_def example_defs)
  have run: "process_response cookie_config (at_second 130) cookie_store_1 a_cookie_request
               a_response = Inr cookie_store_2"
    by (simp add: model_defs example_defs Let_def)
  from cookie_mode_no_pageview_fixed_time_on_site [OF mode wf]
  show ?thesis using mode views wf run by blast
qed

text \<open>
  C10. In cookie mode a Visitor row that a sighting inserts has no user reference,
  also when the request carries an authenticated user.
\<close>

theorem cookie_mode_row_has_no_user:
  assumes "TRACK_ANONYMOUS_USERS_WITH_COOKIES cfg" and "wf_store db"
  shows "\<exists>db'. process_response cfg clk db request response = Inr db'
           \<and> (visitors db' = visitors db
              \<or> (\<exists>obj. visitors db' = visitors db @ [obj] \<and> user_id obj = None))"
proof (cases "should_track cfg (tracked_user request) request response
              \<and> truthy_str (r_COOKIES request cookie_name)")
  case False
  then have "process_response cfg clk db request response = Inr db"
    using assms(1) by (intro cookie_mode_untracked_or_no_token) auto
  then show ?thesis by simp
next
  case True
  then obtain token where "r_COOKIES request cookie_name = Some token" "token \<noteq> []"
    by (auto simp: truthy_str_def split: option.splits)
  with True assms obtain obj where
    "process_response cfg clk db request response =
       Inr (db\<lparr>visitors := visitors db @ [obj], next_id := Suc (next_id db)\<rparr>)"
    "user_id obj = None"
    using cookie_mode_token [of cfg request response token db clk] by auto
  then show ?thesis by simp
qed

theorem cookie_mode_row_has_no_user_witness:
  "TRACK_ANONYMOUS_USERS_WITH_COOKIES cookie_config \<and> wf_store empty_store
   \<and> r_user (cookie_request_as (User 7)) = Some (User 7)
   \<and> process_response cookie_config (at_second 100) empty_store (cookie_request_as (User 7))
        a_response = Inr cookie_store_1
   \<and> (\<exists>db'. process_response cookie_config (at_second 100) empty_store
               (cookie_request_as (User 7)) a_response = Inr db'
           \<and> (visitors db' = visitors empty_store
              \<or> (\<exists>obj. visitors db' = visitors empty_store @ [obj] \<and> user_id obj = None)))"
proof -
  have mode: "TRACK_ANONYMOUS_USERS_WITH_COOKIES cookie_config"
    by (simp add: example_defs)
  have wf: "wf_store empty_store"
    by (simp add: wf_store_def example_defs)
  have usr: "r_user (cookie_request_as (User 7)) = Some (User 7)"
    by (simp add: example_defs)
  have run: "process_response cookie_config (at_second 100) empty_store
               (cookie_request_as (User 7)) a_response = Inr cookie_store_1"
    by (simp add: model_defs example_defs Let_def)
  from cookie_mode_row_has_no_user [OF mode wf]
  show ?thesis using mode wf usr run by blast
qed

end
